theory Spec2Isabelle
  imports Complex_Main "HOL-Library.AList" "HOL-Library.Sublist"
begin

section \<open>The AWS request signer of the proxy (sign-aws-request.ts)\<close>

text \<open>
  A shallow embedding of \<^verbatim>\<open>src/proxy/middleware/request/mutators/sign-aws-request.ts\<close>.
  Strings are \<open>string\<close>; a thrown exception is the \<open>Inl\<close> of a sum; the logger
  and the request manager, which the source mutates, are explicit state.
\<close>

subsection \<open>Strings as JavaScript handles them\<close>

text \<open>
  \<^verbatim>\<open>String.prototype.split(sep)\<close> with a one-character separator: the pieces between the
  separators, empty pieces kept, so the empty string splits into one empty piece.
\<close>

fun js_split :: "char \<Rightarrow> string \<Rightarrow> string list" where
  "js_split sep [] = [[]]"
| "js_split sep (c # cs) =
     (if c = sep then [] # js_split sep cs
      else (case js_split sep cs of
              [] \<Rightarrow> [[c]]
            | w # ws \<Rightarrow> (c # w) # ws))"

text \<open>
  Array destructuring \<^verbatim>\<open>const [a, b, c] = xs\<close> reads the elements 0, 1, 2 and gives
  \<^verbatim>\<open>undefined\<close> (here \<open>None\<close>) past the end.
\<close>

fun element :: "'a list \<Rightarrow> nat \<Rightarrow> 'a option" where
  "element [] n = None"
| "element (x # xs) 0 = Some x"
| "element (x # xs) (Suc n) = element xs n"

text \<open>\<^verbatim>\<open>!s\<close> for a value that is a string or \<^verbatim>\<open>undefined\<close>.\<close>

fun falsy :: "string option \<Rightarrow> bool" where
  "falsy None = True"
| "falsy (Some s) = (s = [])"

text \<open>\<^verbatim>\<open>String.prototype.includes\<close>: does \<open>m\<close> occur in \<open>p\<close> as a contiguous run?\<close>

fun starts_with :: "string \<Rightarrow> string \<Rightarrow> bool" where
  "starts_with p [] = True"
| "starts_with [] (c # m) = False"
| "starts_with (d # p) (c # m) = (d = c \<and> starts_with p m)"

fun js_includes :: "string \<Rightarrow> string \<Rightarrow> bool" where
  "js_includes [] m = (m = [])"
| "js_includes (d # p) m = (starts_with (d # p) m \<or> js_includes p m)"

text \<open>
  \<^verbatim>\<open>String.prototype.replace(pattern, rep)\<close> with a string pattern replaces the first
  occurrence only, and the replacement text is expanded first: \<^verbatim>\<open>$$\<close> is a dollar sign,
  \<^verbatim>\<open>$&\<close> the matched text, \<^verbatim>\<open>$`\<close> the text before the match and \<^verbatim>\<open>$'\<close> the text after
  it. A string pattern has no capture groups, so \<^verbatim>\<open>$1\<close> and \<^verbatim>\<open>$<\<close> stay as they are, as
  does a dollar sign before any other character or at the end. The backquote is the
  character \<open>0x60\<close> and the quote \<open>0x27\<close>.
\<close>

fun substitution :: "string \<Rightarrow> string \<Rightarrow> string \<Rightarrow> string \<Rightarrow> string" where
  "substitution matched passed rest [] = []"
| "substitution matched passed rest [c] = [c]"
| "substitution matched passed rest (c # d # r) =
     (if c = CHR ''$'' then
        (if d = CHR ''$'' then CHR ''$'' # substitution matched passed rest r
         else if d = CHR ''&'' then matched @ substitution matched passed rest r
         else if d = CHR 0x60 then passed @ substitution matched passed rest r
         else if d = CHR 0x27 then rest @ substitution matched passed rest r
         else c # substitution matched passed rest (d # r))
      else c # substitution matched passed rest (d # r))"

text \<open>\<open>passed\<close> is the text already gone through, which holds no match.\<close>

fun replace_from :: "string \<Rightarrow> string \<Rightarrow> string \<Rightarrow> string \<Rightarrow> string" where
  "replace_from pat rep passed [] =
     (if pat = [] then passed @ substitution pat passed [] rep else passed)"
| "replace_from pat rep passed (c # cs) =
     (if starts_with (c # cs) pat
      then passed @ substitution pat passed (drop (length pat) (c # cs)) rep
             @ drop (length pat) (c # cs)
      else replace_from pat rep (passed @ [c]) cs)"

definition replace_first :: "string \<Rightarrow> string \<Rightarrow> string \<Rightarrow> string" where
  "replace_first pat rep s = replace_from pat rep [] s"

subsection \<open>Errors, log lines, keys and requests\<close>

text \<open>
  The source throws plain \<^verbatim>\<open>Error\<close>s with a message; the schema library throws a
  \<^verbatim>\<open>ZodError\<close> with its issues.
\<close>

datatype zod_issue =
    InvalidType
  | InvalidField string
  | UnrecognizedKeys "string list"

datatype error =
    Error string
  | ZodError "zod_issue list"

datatype log_level = LogInfo | LogError

record log_entry =
  level :: log_level
  details :: "(string \<times> string) list"
  msg :: string

record aws_key =
  key :: string
  hash :: string
  inferenceProfileIds :: "string list"

record credential =
  accessKeyId :: string
  secretAccessKey :: string
  region :: string

text \<open>
  A request body is a JSON value. An object is the list of its properties in insertion
  order; a property whose value is \<^verbatim>\<open>undefined\<close> counts as absent, which is how
  \<^verbatim>\<open>JSON.stringify\<close> writes it. Numbers are carried, never computed with.
\<close>

datatype json =
    JNull
  | JBool bool
  | JNum rat
  | JStr string
  | JArr "json list"
  | JObj "(string \<times> json) list"

text \<open>
  \<^verbatim>\<open>HttpRequest\<close> of \<^verbatim>\<open>@smithy/protocol-http\<close>, with the fields the source sets; its
  \<^verbatim>\<open>body\<close> is the serialized text, and \<open>http_method\<close> is its field \<^verbatim>\<open>method\<close>, a
  name Isabelle reserves.
\<close>

record http_request =
  http_method :: string
  protocol :: string
  hostname :: string
  path :: string
  headers :: "(string \<times> string) list"
  body :: string

text \<open>
  The in-flight request, as far as this mutator reads it. \<open>model\<close> and \<open>stream\<close>
  are \<^verbatim>\<open>req.body.model\<close> and \<^verbatim>\<open>req.body.stream\<close>, which the request transformation
  that runs before this mutator has made a string and a boolean.
\<close>

record request =
  body :: json
  model :: string
  stream :: bool
  inboundApi :: string
  outboundApi :: string

subsection \<open>getCredentialParts\<close>

text \<open>
  The function reads \<^verbatim>\<open>req.key.key\<close> and \<^verbatim>\<open>req.key.hash\<close> only, so the model takes the
  key. It returns what was logged together with the credential or the thrown error;
  \<open>invalid_key\<close> is the body of the source's \<^verbatim>\<open>if\<close>: one error line with the
  hash of the key, then the throw.
\<close>

definition invalid_key :: "aws_key \<Rightarrow> log_entry list \<times> (error + credential)" where
  "invalid_key k =
     ([\<lparr>level = LogError, details = [(''key'', hash k)],
        msg = ''AWS_CREDENTIALS isn't correctly formatted; refer to the docs''\<rparr>],
      Inl (Error ''The key assigned to this request is invalid.''))"

definition getCredentialParts :: "aws_key \<Rightarrow> log_entry list \<times> (error + credential)" where
  "getCredentialParts k =
     (let parts = js_split CHR '':'' (aws_key.key k);
          accessKeyId = element parts 0;
          secretAccessKey = element parts 1;
          region = element parts 2
      in if falsy accessKeyId \<or> falsy secretAccessKey \<or> falsy region
         then invalid_key k
         else (case (accessKeyId, secretAccessKey, region) of
                 (Some a, Some s, Some r) \<Rightarrow>
                   ([], Inr \<lparr>accessKeyId = a, secretAccessKey = s, region = r\<rparr>)
               | _ \<Rightarrow> invalid_key k))"

subsection \<open>The schema library\<close>

text \<open>
  What the source uses of zod's object schemas. A field's type parses the value found
  under the key (\<open>None\<close> when the key is absent) into a value, into \<^verbatim>\<open>undefined\<close>
  (an optional field left out) or into a failure. An object schema is its shape, in
  declaration order, and its policy for keys outside the shape.
\<close>

datatype parsed = Invalid | Valid "json option"

type_synonym zod_type = "json option \<Rightarrow> parsed"

datatype unknown_keys = Strip | Strict | Passthrough

record zod_object =
  shape :: "(string \<times> zod_type) list"
  unknownKeys :: unknown_keys

text \<open>\<^verbatim>\<open>.pick(mask)\<close> keeps the fields of the mask that the shape has, in the mask's order.\<close>

definition pick :: "string list \<Rightarrow> zod_object \<Rightarrow> zod_object" where
  "pick names s =
     s\<lparr>shape := List.map_filter (\<lambda>k. map_option (Pair k) (map_of (shape s) k)) names\<rparr>"

definition strip :: "zod_object \<Rightarrow> zod_object" where
  "strip s = s\<lparr>unknownKeys := Strip\<rparr>"

text \<open>
  \<^verbatim>\<open>.parse(data)\<close>: a value that is not an object is refused; every field of the shape is
  parsed; keys outside the shape are dropped, refused or copied as the policy says; the
  result is thrown as a \<^verbatim>\<open>ZodError\<close> when there is any issue.
\<close>

definition issue_of :: "string \<times> parsed \<Rightarrow> zod_issue option" where
  "issue_of kr = (case snd kr of Invalid \<Rightarrow> Some (InvalidField (fst kr)) | Valid v \<Rightarrow> None)"

definition property_of :: "string \<times> parsed \<Rightarrow> (string \<times> json) option" where
  "property_of kr = (case snd kr of Valid (Some v) \<Rightarrow> Some (fst kr, v) | _ \<Rightarrow> None)"

definition results_of ::
  "(string \<times> zod_type) list \<Rightarrow> (string \<times> json) list \<Rightarrow> (string \<times> parsed) list" where
  "results_of fs kvs = map (\<lambda>(k, t). (k, t (map_of kvs k))) fs"

definition parse :: "zod_object \<Rightarrow> json \<Rightarrow> error + json" where
  "parse s data =
     (case data of
        JObj kvs \<Rightarrow>
          (let results = results_of (shape s) kvs;
               extraKeys = filter (\<lambda>k. k \<notin> set (map fst (shape s))) (map fst kvs);
               issues = List.map_filter issue_of results
                        @ (if unknownKeys s = Strict \<and> extraKeys \<noteq> []
                           then [UnrecognizedKeys extraKeys] else []);
               finalObject = List.map_filter property_of results
                        @ (if unknownKeys s = Passthrough
                           then filter (\<lambda>(k, v). k \<in> set extraKeys) kvs else [])
           in if issues = [] then Inr (JObj finalObject) else Inl (ZodError issues))
      | _ \<Rightarrow> Inl (ZodError [InvalidType]))"

text \<open>\<^verbatim>\<open>obj[k] = v\<close>: replaces the property in place or adds it at the end.\<close>

fun set_property :: "string \<Rightarrow> json \<Rightarrow> json \<Rightarrow> json" where
  "set_property k v (JObj kvs) = JObj (AList.update k v kvs)"
| "set_property k v j = j"

fun keys :: "json \<Rightarrow> string list" where
  "keys (JObj kvs) = map fst kvs"
| "keys j = []"

fun property :: "json \<Rightarrow> string \<Rightarrow> json option" where
  "property (JObj kvs) k = map_of kvs k"
| "property j k = None"

subsection \<open>getStrictlyValidatedBodyForAws\<close>

text \<open>
  Modelled from the spec: the declarations of \<^verbatim>\<open>AWSMistralV1ChatCompletionsSchema\<close> and
  \<^verbatim>\<open>AWSMistralV1TextCompletionsSchema\<close> (\<^verbatim>\<open>shared/api-schemas/mistral-ai\<close>) are missing.
  The spec: that family's own full schema, the entire schema strict already, with
  extraneous fields rejected rather than silently dropped. So the schema is the list of
  its fields with the strict policy for other keys.
\<close>

definition strict_schema :: "(string \<times> zod_type) list \<Rightarrow> zod_object" where
  "strict_schema fs = \<lparr>shape = fs, unknownKeys = Strict\<rparr>"

text \<open>
  The four schemas are declared in \<^verbatim>\<open>shared/api-schemas\<close>; the function takes them as
  a parameter. For the two Anthropic schemas that is any object schema. For the two
  Mistral schemas the parameter is the list of fields, and the schema is built by
  \<open>strict_schema\<close>.
\<close>

record api_schemas =
  AnthropicV1TextSchema :: zod_object
  AnthropicV1MessagesSchema :: zod_object
  AWSMistralV1ChatCompletionsFields :: "(string \<times> zod_type) list"
  AWSMistralV1TextCompletionsFields :: "(string \<times> zod_type) list"

definition text_mask :: "string list" where
  "text_mask = [''prompt'', ''max_tokens_to_sample'', ''stop_sequences'', ''temperature'',
                ''top_k'', ''top_p'']"

definition messages_mask :: "string list" where
  "messages_mask = [''messages'', ''system'', ''max_tokens'', ''stop_sequences'',
                    ''temperature'', ''top_k'', ''top_p'']"

definition getStrictlyValidatedBodyForAws :: "api_schemas \<Rightarrow> request \<Rightarrow> error + json" where
  "getStrictlyValidatedBodyForAws schemas req =
     (if outboundApi req = ''anthropic-text'' then
        parse (strip (pick text_mask (AnthropicV1TextSchema schemas))) (request.body req)
      else if outboundApi req = ''anthropic-chat'' then
        (case parse (strip (pick messages_mask (AnthropicV1MessagesSchema schemas)))
                (request.body req) of
           Inl e \<Rightarrow> Inl e
         | Inr strippedParams \<Rightarrow>
             Inr (set_property ''anthropic_version'' (JStr ''bedrock-2023-05-31'') strippedParams))
      else if outboundApi req = ''mistral-ai'' then
        parse (strict_schema (AWSMistralV1ChatCompletionsFields schemas)) (request.body req)
      else if outboundApi req = ''mistral-text'' then
        parse (strict_schema (AWSMistralV1TextCompletionsFields schemas)) (request.body req)
      else Inl (Error ''Unexpected outbound API for AWS.''))"

subsection \<open>signAwsRequest\<close>

text \<open>
  What the mutator takes from outside this file: the key pool, the host template
  \<^verbatim>\<open>AMZ_HOST\<close>, the schemas, \<^verbatim>\<open>JSON.stringify\<close> and the \<^verbatim>\<open>SignatureV4\<close> signer of
  \<^verbatim>\<open>@smithy/signature-v4\<close>, which gets the two key strings, the region and the service.
\<close>

record environment =
  keyPool_get :: "string \<Rightarrow> string \<Rightarrow> error + aws_key"
  AMZ_HOST :: string
  schemas :: api_schemas
  stringify :: "json \<Rightarrow> string"
  SignatureV4 :: "string \<Rightarrow> string \<Rightarrow> string \<Rightarrow> string \<Rightarrow> http_request \<Rightarrow> http_request"

text \<open>
  The state the mutator writes through its manager: the key set by \<^verbatim>\<open>setKey\<close>, the
  headers set by \<^verbatim>\<open>setHeader\<close>, the request set by \<^verbatim>\<open>setSignedRequest\<close>, and the log.
\<close>

record manager =
  request :: request
  assignedKey :: "aws_key option"
  headersSet :: "(string \<times> string) list"
  signedRequest :: "http_request option"
  logged :: "log_entry list"

text \<open>
  \<^verbatim>\<open>key.inferenceProfileIds.find((p) => p.includes(model)) || model\<close>: the first profile
  that includes the model, unless there is none or it is the empty string.
\<close>

definition select_profile :: "aws_key \<Rightarrow> string \<Rightarrow> string" where
  "select_profile k m =
     (case find (\<lambda>p. js_includes p m) (inferenceProfileIds k) of
        None \<Rightarrow> m
      | Some p \<Rightarrow> if p = [] then m else p)"

text \<open>The \<^verbatim>\<open>HttpRequest\<close> the source builds, with the accept header it then adds.\<close>

definition new_request :: "string \<Rightarrow> string \<Rightarrow> bool \<Rightarrow> string \<Rightarrow> http_request" where
  "new_request host profile strm text =
     (let newRequest =
        \<lparr>http_method = ''POST'',
         protocol = ''https:'',
         hostname = host,
         path = ''/model/'' @ profile @ ''/invoke''
                  @ (if strm then ''-with-response-stream'' else []),
         headers = [(''Host'', host), (''content-type'', ''application/json'')],
         body = text\<rparr>
      in if strm
         then newRequest\<lparr>headers :=
                AList.update ''x-amzn-bedrock-accept'' ''application/json'' (headers newRequest)\<rparr>
         else newRequest\<lparr>headers := AList.update ''accept'' ''*/*'' (headers newRequest)\<rparr>)"

definition sign :: "environment \<Rightarrow> http_request \<Rightarrow> credential \<Rightarrow> http_request" where
  "sign env req c =
     SignatureV4 env (accessKeyId c) (secretAccessKey c) (region c) ''bedrock'' req"

definition assigned_entry :: "aws_key \<Rightarrow> request \<Rightarrow> string \<Rightarrow> log_entry" where
  "assigned_entry k req profile =
     \<lparr>level = LogInfo,
      details = [(''key'', hash k), (''model'', model req), (''profile'', profile),
                 (''inboundApi'', inboundApi req), (''outboundApi'', outboundApi req)],
      msg = ''Assigned AWS credentials to request''\<rparr>"

text \<open>
  Nothing is caught: the first throw ends the mutator, with the state as written so far.
  The result is the manager and the error thrown, if any.
\<close>

definition signAwsRequest :: "environment \<Rightarrow> manager \<Rightarrow> manager \<times> error option" where
  "signAwsRequest env manager =
     (let req = request manager in
      case keyPool_get env (model req) ''aws'' of
        Inl e \<Rightarrow> (manager, Some e)
      | Inr k \<Rightarrow>
         (let m1 = manager\<lparr>assignedKey := Some k\<rparr>;
              (lines, parts) = getCredentialParts k;
              m2 = m1\<lparr>logged := logged m1 @ lines\<rparr>
          in case parts of
               Inl e \<Rightarrow> (m2, Some e)
             | Inr credential \<Rightarrow>
                (let host = replace_first ''%REGION%'' (region credential) (AMZ_HOST env);
                     m3 = m2\<lparr>headersSet :=
                            AList.update ''anthropic-version'' ''2023-06-01'' (headersSet m2)\<rparr>;
                     profile = select_profile k (model req)
                 in case getStrictlyValidatedBodyForAws (schemas env) req of
                      Inl e \<Rightarrow> (m3, Some e)
                    | Inr validated \<Rightarrow>
                       (let newRequest =
                              new_request host profile (stream req) (stringify env validated);
                            m4 = m3\<lparr>logged := logged m3 @ [assigned_entry k req profile]\<rparr>;
                            (lines', parts') = getCredentialParts k;
                            m5 = m4\<lparr>logged := logged m4 @ lines'\<rparr>
                        in case parts' of
                             Inl e \<Rightarrow> (m5, Some e)
                           | Inr credential' \<Rightarrow>
                               (m5\<lparr>signedRequest := Some (sign env newRequest credential')\<rparr>,
                                None)))))"

subsection \<open>Notions the properties are stated with\<close>





text \<open>
  The allow-list of a dialect: the picked names, with the injected version field for
  the chat dialect, and for the Mistral dialects the fields of the schema itself.
\<close>

definition allow_list :: "api_schemas \<Rightarrow> string \<Rightarrow> string list" where
  "allow_list ss api =
     (if api = ''anthropic-text'' then text_mask
      else if api = ''anthropic-chat'' then messages_mask @ [''anthropic_version'']
      else if api = ''mistral-ai'' then map fst (AWSMistralV1ChatCompletionsFields ss)
      else if api = ''mistral-text'' then map fst (AWSMistralV1TextCompletionsFields ss)
      else [])"

definition supported_api :: "string \<Rightarrow> bool" where
  "supported_api api =
     (api = ''anthropic-text'' \<or> api = ''anthropic-chat'' \<or> api = ''mistral-ai''
      \<or> api = ''mistral-text'')"

subsection \<open>An instance of the parameters\<close>

text \<open>
  Small field types, schemas and an environment, to run the functions on concrete
  requests.
\<close>

definition zod_required :: "(json \<Rightarrow> bool) \<Rightarrow> zod_type" where
  "zod_required ok x =
     (case x of None \<Rightarrow> Invalid | Some v \<Rightarrow> if ok v then Valid (Some v) else Invalid)"

definition zod_optional :: "(json \<Rightarrow> bool) \<Rightarrow> zod_type" where
  "zod_optional ok x =
     (case x of None \<Rightarrow> Valid None | Some v \<Rightarrow> if ok v then Valid (Some v) else Invalid)"

fun is_string :: "json \<Rightarrow> bool" where
  "is_string (JStr s) = True"
| "is_string j = False"

fun is_number :: "json \<Rightarrow> bool" where
  "is_number (JNum n) = True"
| "is_number j = False"

fun is_array :: "json \<Rightarrow> bool" where
  "is_array (JArr xs) = True"
| "is_array j = False"

definition example_schemas :: api_schemas where
  "example_schemas =
     \<lparr>AnthropicV1TextSchema =
        \<lparr>shape = [(''model'', zod_required is_string),
                  (''temperature'', zod_optional is_number),
                  (''prompt'', zod_required is_string),
                  (''max_tokens_to_sample'', zod_required is_number)],
         unknownKeys = Strip\<rparr>,
      AnthropicV1MessagesSchema =
        \<lparr>shape = [(''model'', zod_optional is_string),
                  (''temperature'', zod_optional is_number),
                  (''messages'', zod_required is_array),
                  (''max_tokens'', zod_optional is_number)],
         unknownKeys = Strip\<rparr>,
      AWSMistralV1ChatCompletionsFields =
        [(''messages'', zod_required is_array), (''temperature'', zod_optional is_number)],
      AWSMistralV1TextCompletionsFields =
        [(''prompt'', zod_required is_string), (''temperature'', zod_optional is_number)]\<rparr>"

definition example_key :: aws_key where
  "example_key =
     \<lparr>key = ''AKIDEXAMPLE:wJalrXUtnFEMI:us-east-1'', hash = ''aws-3f9c'',
      inferenceProfileIds = [''foo-v2'', ''bar-v2'']\<rparr>"

definition example_env :: environment where
  "example_env =
     \<lparr>keyPool_get = (\<lambda>m service. Inr example_key),
      AMZ_HOST = ''bedrock-runtime.%REGION%.amazonaws.com'',
      schemas = example_schemas,
      stringify = (\<lambda>j. concat (keys j)),
      SignatureV4 = (\<lambda>ak sk rg service r.
        r\<lparr>headers := AList.update ''authorization'' (ak @ ''/'' @ rg @ ''/'' @ service)
                         (headers r)\<rparr>)\<rparr>"

definition example_request :: "string \<Rightarrow> bool \<Rightarrow> string \<Rightarrow> json \<Rightarrow> request" where
  "example_request m s api b =
     \<lparr>body = b, model = m, stream = s, inboundApi = ''openai'', outboundApi = api\<rparr>"

definition example_manager :: "request \<Rightarrow> manager" where
  "example_manager req =
     \<lparr>request = req, assignedKey = None, headersSet = [], signedRequest = None,
      logged = []\<rparr>"

definition chat_body :: json where
  "chat_body =
     JObj [(''messages'', JArr [JObj [(''role'', JStr ''user''), (''content'', JStr ''hi'')]]),
           (''temperature'', JNum (1 / 2)),
           (''foo'', JStr ''bar'')]"



definition text_body :: json where
  "text_body =
     JObj [(''prompt'', JStr ''Human: hi''),
           (''max_tokens_to_sample'', JNum 100),
           (''foo'', JStr ''bar'')]"

definition bad_temperature_body :: json where
  "bad_temperature_body = JObj [(''messages'', JArr []), (''temperature'', JStr ''hot'')]"

definition no_messages_body :: json where
  "no_messages_body = JObj [(''temperature'', JNum 1)]"

section \<open>Properties\<close>

subsection \<open>Splitting and searching strings\<close>

lemma js_split_no_separator: "sep \<notin> set a \<Longrightarrow> js_split sep a = [a]"
  by (induction a) auto

lemma js_split_segment:
  "sep \<notin> set a \<Longrightarrow> js_split sep (a @ sep # rest) = a # js_split sep rest"
  by (induction a) (auto split: list.splits)

lemma js_split_triple:
  assumes "CHR '':'' \<notin> set ak" and "CHR '':'' \<notin> set sk" and "CHR '':'' \<notin> set rg"
  shows "js_split CHR '':'' (ak @ '':'' @ sk @ '':'' @ rg) = [ak, sk, rg]"
  using assms by (simp add: js_split_segment js_split_no_separator)

lemma element_Suc [simp]:
  "element (x # xs) 1 = element xs 0" "element (x # xs) 2 = element xs 1"
  by (simp_all add: numeral_2_eq_2)

lemma few_segments_falsy:
  assumes h: "length (filter (\<lambda>w. w \<noteq> []) parts) < 3"
  shows "falsy (element parts 0) \<or> falsy (element parts 1) \<or> falsy (element parts 2)"
proof (cases parts)
  case Nil
  then show ?thesis by simp
next
  case first: (Cons a p1)
  show ?thesis
  proof (cases p1)
    case Nil
    with first show ?thesis by simp
  next
    case second: (Cons b p2)
    show ?thesis
    proof (cases p2)
      case Nil
      with first second show ?thesis by simp
    next
      case (Cons c p3)
      with first second h show ?thesis by (auto split: if_splits)
    qed
  qed
qed

lemma starts_with_prefix: "starts_with p m \<longleftrightarrow> prefix m p"
  by (induction p m rule: starts_with.induct) auto

lemma js_includes_sublist: "js_includes p m \<longleftrightarrow> sublist m p"
proof (induction p)
  case Nil
  then show ?case by simp
next
  case (Cons d p)
  then show ?case by (simp add: starts_with_prefix sublist_Cons_right)
qed

lemma find_first_match:
  "xs = pre @ p # post \<Longrightarrow> \<forall>q\<in>set pre. \<not> P q \<Longrightarrow> P p \<Longrightarrow> find P xs = Some p"
  by (induction pre arbitrary: xs) auto

lemma find_no_match: "\<forall>q\<in>set xs. \<not> P q \<Longrightarrow> find P xs = None"
  by (induction xs) auto

subsection \<open>Credentials\<close>

lemma getCredentialParts_ok_log:
  "snd (getCredentialParts k) = Inr c \<Longrightarrow> getCredentialParts k = ([], Inr c)"
  by (auto simp add: getCredentialParts_def Let_def invalid_key_def
      split: if_splits option.splits)

text \<open>
  C2. A composite secret that splits at the colons into three non-empty segments (as
  \<open>AK:SK:region\<close> does when the three parts are non-empty and have no colon) gives
  exactly the credential of these three; a secret with fewer than three non-empty
  segments is refused with the error, the function returning no credential; a
  credential that is returned has no empty field.
\<close>

theorem getCredentialParts_triple:
  "(js_split CHR '':'' (key k) = [ak, sk, rg] \<and> ak \<noteq> [] \<and> sk \<noteq> [] \<and> rg \<noteq> [] \<longrightarrow>
      snd (getCredentialParts k) = Inr \<lparr>accessKeyId = ak, secretAccessKey = sk, region = rg\<rparr>)
   \<and> (key k = ak @ '':'' @ sk @ '':'' @ rg \<and> ak \<noteq> [] \<and> sk \<noteq> [] \<and> rg \<noteq> []
       \<and> CHR '':'' \<notin> set ak \<and> CHR '':'' \<notin> set sk \<and> CHR '':'' \<notin> set rg \<longrightarrow>
      snd (getCredentialParts k) = Inr \<lparr>accessKeyId = ak, secretAccessKey = sk, region = rg\<rparr>)
   \<and> (length (filter (\<lambda>w. w \<noteq> []) (js_split CHR '':'' (key k))) < 3 \<longrightarrow>
      snd (getCredentialParts k) = Inl (Error ''The key assigned to this request is invalid.''))
   \<and> (snd (getCredentialParts k) = Inr c \<longrightarrow>
      accessKeyId c \<noteq> [] \<and> secretAccessKey c \<noteq> [] \<and> region c \<noteq> [])"
proof -
  have ok: "snd (getCredentialParts k) = Inr \<lparr>accessKeyId = ak, secretAccessKey = sk, region = rg\<rparr>"
    if "js_split CHR '':'' (key k) = [ak, sk, rg] \<and> ak \<noteq> [] \<and> sk \<noteq> [] \<and> rg \<noteq> []"
    using that by (simp add: getCredentialParts_def Let_def)
  have joined: "snd (getCredentialParts k) = Inr \<lparr>accessKeyId = ak, secretAccessKey = sk, region = rg\<rparr>"
    if h: "key k = ak @ '':'' @ sk @ '':'' @ rg \<and> ak \<noteq> [] \<and> sk \<noteq> [] \<and> rg \<noteq> []
       \<and> CHR '':'' \<notin> set ak \<and> CHR '':'' \<notin> set sk \<and> CHR '':'' \<notin> set rg"
  proof -
    from h have "js_split CHR '':'' (key k) = [ak, sk, rg]"
      using js_split_triple[of ak sk rg] by simp
    with h ok show ?thesis by blast
  qed
  have bad: "snd (getCredentialParts k) = Inl (Error ''The key assigned to this request is invalid.'')"
    if "length (filter (\<lambda>w. w \<noteq> []) (js_split CHR '':'' (key k))) < 3"
    using few_segments_falsy[OF that]
    by (auto simp add: getCredentialParts_def Let_def invalid_key_def)
  have full: "accessKeyId c \<noteq> [] \<and> secretAccessKey c \<noteq> [] \<and> region c \<noteq> []"
    if "snd (getCredentialParts k) = Inr c"
    using that
    by (auto simp add: getCredentialParts_def Let_def invalid_key_def
        split: if_splits option.splits)
  from ok joined bad full show ?thesis by blast
qed

theorem getCredentialParts_triple_witness:
  "js_split CHR '':'' (key example_key) = [''AKIDEXAMPLE'', ''wJalrXUtnFEMI'', ''us-east-1'']
   \<and> key example_key = ''AKIDEXAMPLE'' @ '':'' @ ''wJalrXUtnFEMI'' @ '':'' @ ''us-east-1''
   \<and> CHR '':'' \<notin> set ''AKIDEXAMPLE'' \<and> CHR '':'' \<notin> set ''wJalrXUtnFEMI''
   \<and> CHR '':'' \<notin> set ''us-east-1''
   \<and> snd (getCredentialParts example_key)
       = Inr \<lparr>accessKeyId = ''AKIDEXAMPLE'', secretAccessKey = ''wJalrXUtnFEMI'',
              region = ''us-east-1''\<rparr>
   \<and> length (filter (\<lambda>w. w \<noteq> [])
        (js_split CHR '':'' (key (example_key\<lparr>key := ''AKIDEXAMPLE::us-east-1''\<rparr>)))) < 3
   \<and> snd (getCredentialParts (example_key\<lparr>key := ''AKIDEXAMPLE::us-east-1''\<rparr>))
       = Inl (Error ''The key assigned to this request is invalid.'')
   \<and> accessKeyId \<lparr>accessKeyId = ''AKIDEXAMPLE'', secretAccessKey = ''wJalrXUtnFEMI'',
                   region = ''us-east-1''\<rparr> \<noteq> []"
proof -
  let ?c = "\<lparr>accessKeyId = ''AKIDEXAMPLE'', secretAccessKey = ''wJalrXUtnFEMI'',
             region = ''us-east-1''\<rparr>"
  have s: "js_split CHR '':'' (key example_key)
             = [''AKIDEXAMPLE'', ''wJalrXUtnFEMI'', ''us-east-1'']"
    by (simp add: example_key_def)
  have n: "''AKIDEXAMPLE'' \<noteq> [] \<and> ''wJalrXUtnFEMI'' \<noteq> [] \<and> ''us-east-1'' \<noteq> []"
    by simp
  have j: "key example_key = ''AKIDEXAMPLE'' @ '':'' @ ''wJalrXUtnFEMI'' @ '':'' @ ''us-east-1''
           \<and> CHR '':'' \<notin> set ''AKIDEXAMPLE'' \<and> CHR '':'' \<notin> set ''wJalrXUtnFEMI''
           \<and> CHR '':'' \<notin> set ''us-east-1''"
    by (simp add: example_key_def)
  have f: "length (filter (\<lambda>w. w \<noteq> [])
        (js_split CHR '':'' (key (example_key\<lparr>key := ''AKIDEXAMPLE::us-east-1''\<rparr>)))) < 3"
    by simp
  from getCredentialParts_triple
         [of example_key "''AKIDEXAMPLE''" "''wJalrXUtnFEMI''" "''us-east-1''" ?c] s n
  have 1: "snd (getCredentialParts example_key) = Inr ?c"
    and 3: "snd (getCredentialParts example_key) = Inr ?c \<longrightarrow> accessKeyId ?c \<noteq> []"
    by blast+
  from getCredentialParts_triple[of "example_key\<lparr>key := ''AKIDEXAMPLE::us-east-1''\<rparr>"] f
  have 2: "snd (getCredentialParts (example_key\<lparr>key := ''AKIDEXAMPLE::us-east-1''\<rparr>))
             = Inl (Error ''The key assigned to this request is invalid.'')"
    by blast
  from s j f 1 2 3 show ?thesis by blast
qed

text \<open>
  C10. When the first three segments of the secret are non-empty, extraction succeeds
  whatever follows them: the segments after the third are dropped without an error or a
  log line, so \<open>a:b:c:d\<close> gives the region \<open>c\<close>.
\<close>

theorem getCredentialParts_extra_segments:
  "js_split CHR '':'' (key k) = ak # sk # rg # extra \<and> ak \<noteq> [] \<and> sk \<noteq> [] \<and> rg \<noteq> [] \<longrightarrow>
     getCredentialParts k = ([], Inr \<lparr>accessKeyId = ak, secretAccessKey = sk, region = rg\<rparr>)"
  by (simp add: getCredentialParts_def Let_def)

theorem getCredentialParts_extra_segments_witness:
  "js_split CHR '':'' (key (example_key\<lparr>key := ''a:b:c:d''\<rparr>)) = [''a'', ''b'', ''c'', ''d'']
   \<and> getCredentialParts (example_key\<lparr>key := ''a:b:c:d''\<rparr>)
       = ([], Inr \<lparr>accessKeyId = ''a'', secretAccessKey = ''b'', region = ''c''\<rparr>)"
proof -
  have s: "js_split CHR '':'' (key (example_key\<lparr>key := ''a:b:c:d''\<rparr>)) = [''a'', ''b'', ''c'', ''d'']"
    by simp
  have n: "''a'' \<noteq> [] \<and> ''b'' \<noteq> [] \<and> ''c'' \<noteq> []" by simp
  from getCredentialParts_extra_segments
         [of "example_key\<lparr>key := ''a:b:c:d''\<rparr>" "''a''" "''b''" "''c''" "[''d'']"] s n
  show ?thesis by blast
qed

text \<open>
  C9. When extraction fails, what is logged and thrown is fixed text and the hash of
  the key: one error line whose only field is the hash, and the fixed message. Two keys
  with the same hash whose secrets are both refused give the same log line and the same
  error, whatever the secrets are, so nothing of the secret reaches either.
\<close>

theorem invalid_key_report:
  "(snd (getCredentialParts k) = Inl e \<longrightarrow>
      getCredentialParts k =
        ([\<lparr>level = LogError, details = [(''key'', hash k)],
           msg = ''AWS_CREDENTIALS isn't correctly formatted; refer to the docs''\<rparr>],
         Inl (Error ''The key assigned to this request is invalid.'')))
   \<and> (snd (getCredentialParts k) = Inl e \<and> snd (getCredentialParts k') = Inl e'
        \<and> hash k = hash k' \<longrightarrow>
      getCredentialParts k = getCredentialParts k')"
  by (auto simp add: getCredentialParts_def Let_def invalid_key_def
      split: if_splits option.splits)

theorem invalid_key_report_witness:
  "snd (getCredentialParts (example_key\<lparr>key := ''AKIDEXAMPLE:wJalrXUtnFEMI''\<rparr>))
     = Inl (Error ''The key assigned to this request is invalid.'')
   \<and> snd (getCredentialParts (example_key\<lparr>key := '':hunter2:''\<rparr>))
     = Inl (Error ''The key assigned to this request is invalid.'')
   \<and> hash (example_key\<lparr>key := ''AKIDEXAMPLE:wJalrXUtnFEMI''\<rparr>)
     = hash (example_key\<lparr>key := '':hunter2:''\<rparr>)
   \<and> getCredentialParts (example_key\<lparr>key := ''AKIDEXAMPLE:wJalrXUtnFEMI''\<rparr>)
     = getCredentialParts (example_key\<lparr>key := '':hunter2:''\<rparr>)
   \<and> getCredentialParts (example_key\<lparr>key := ''AKIDEXAMPLE:wJalrXUtnFEMI''\<rparr>)
     = ([\<lparr>level = LogError,
          details = [(''key'', hash (example_key\<lparr>key := ''AKIDEXAMPLE:wJalrXUtnFEMI''\<rparr>))],
          msg = ''AWS_CREDENTIALS isn't correctly formatted; refer to the docs''\<rparr>],
        Inl (Error ''The key assigned to this request is invalid.''))"
proof -
  let ?k = "example_key\<lparr>key := ''AKIDEXAMPLE:wJalrXUtnFEMI''\<rparr>"
  let ?k' = "example_key\<lparr>key := '':hunter2:''\<rparr>"
  let ?e = "Error ''The key assigned to this request is invalid.''"
  have a: "snd (getCredentialParts ?k) = Inl ?e"
    by (simp add: getCredentialParts_def Let_def invalid_key_def)
  have b: "snd (getCredentialParts ?k') = Inl ?e"
    by (simp add: getCredentialParts_def Let_def invalid_key_def)
  have h: "hash ?k = hash ?k'" by simp
  from invalid_key_report[of ?k ?e ?k' ?e] a b h show ?thesis by blast
qed

subsection \<open>The resource identifier and the request built from it\<close>

lemma signAwsRequest_success:
  assumes "signAwsRequest env m = (m', None)"
  shows "\<exists>k c validated.
           keyPool_get env (model (request m)) ''aws'' = Inr k
         \<and> getCredentialParts k = ([], Inr c)
         \<and> getStrictlyValidatedBodyForAws (schemas env) (request m) = Inr validated
         \<and> m' = m\<lparr>assignedKey := Some k,
                   headersSet :=
                     AList.update ''anthropic-version'' ''2023-06-01'' (headersSet m),
                   logged := logged m
                     @ [assigned_entry k (request m) (select_profile k (model (request m)))],
                   signedRequest := Some (sign env
                      (new_request (replace_first ''%REGION%'' (region c) (AMZ_HOST env))
                                   (select_profile k (model (request m)))
                                   (stream (request m)) (stringify env validated)) c)\<rparr>"
proof -
  from assms obtain k where k: "keyPool_get env (model (request m)) ''aws'' = Inr k"
    by (cases "keyPool_get env (model (request m)) ''aws''")
       (auto simp: signAwsRequest_def Let_def)
  obtain lg parts where gp: "getCredentialParts k = (lg, parts)"
    by (cases "getCredentialParts k")
  from assms k gp obtain c where c: "parts = Inr c"
    by (cases parts) (auto simp: signAwsRequest_def Let_def)
  from gp c have lg: "lg = []" using getCredentialParts_ok_log[of k c] by simp
  from assms k gp c obtain v
    where v: "getStrictlyValidatedBodyForAws (schemas env) (request m) = Inr v"
    by (cases "getStrictlyValidatedBodyForAws (schemas env) (request m)")
       (auto simp: signAwsRequest_def Let_def)
  from assms k gp c lg v show ?thesis
    by (auto simp: signAwsRequest_def Let_def)
qed

text \<open>
  C3. The identifier is the first profile of the key, in order, in which the model id
  occurs as a contiguous substring, and the model id itself when it occurs in none. With
  the profiles \<open>foo-v2\<close>, \<open>bar-v2\<close> and the model \<open>foo\<close> it is \<open>foo-v2\<close>; with no
  profile and the model \<open>m1\<close> it is \<open>m1\<close>. The path of the request is
  \<open>/model/\<close>, the identifier as chosen, \<open>/invoke\<close> and the streaming suffix, and that
  request is the one a successful run hands to the signer.
\<close>

theorem select_profile_first_match:
  "(inferenceProfileIds k = pre @ p # post \<and> (\<forall>q\<in>set pre. \<not> sublist m q) \<and> sublist m p \<longrightarrow>
      select_profile k m = p)
   \<and> ((\<forall>q\<in>set (inferenceProfileIds k). \<not> sublist m q) \<longrightarrow> select_profile k m = m)
   \<and> select_profile (k\<lparr>inferenceProfileIds := [''foo-v2'', ''bar-v2'']\<rparr>) ''foo'' = ''foo-v2''
   \<and> select_profile (k\<lparr>inferenceProfileIds := []\<rparr>) ''m1'' = ''m1''
   \<and> path (new_request host (select_profile k m) strm txt)
       = ''/model/'' @ select_profile k m @ ''/invoke''
           @ (if strm then ''-with-response-stream'' else [])
   \<and> (snd (signAwsRequest env mg) = None \<longrightarrow>
        (\<exists>ky c validated.
            keyPool_get env (model (request mg)) ''aws'' = Inr ky
          \<and> signedRequest (fst (signAwsRequest env mg))
              = Some (sign env
                  (new_request (replace_first ''%REGION%'' (region c) (AMZ_HOST env))
                               (select_profile ky (model (request mg)))
                               (stream (request mg)) (stringify env validated)) c)))"
proof -
  have first: "select_profile k m = p"
    if h: "inferenceProfileIds k = pre @ p # post \<and> (\<forall>q\<in>set pre. \<not> sublist m q) \<and> sublist m p"
  proof -
    from h have "find (\<lambda>p. js_includes p m) (inferenceProfileIds k) = Some p"
      by (intro find_first_match[where pre=pre and post=post])
         (simp_all add: js_includes_sublist)
    moreover have "p = [] \<Longrightarrow> m = []" using h by auto
    ultimately show ?thesis by (auto simp: select_profile_def)
  qed
  have none: "select_profile k m = m"
    if "\<forall>q\<in>set (inferenceProfileIds k). \<not> sublist m q"
    using that by (simp add: select_profile_def find_no_match js_includes_sublist)
  have foo: "select_profile (k\<lparr>inferenceProfileIds := [''foo-v2'', ''bar-v2'']\<rparr>) ''foo''
               = ''foo-v2''"
    by (simp add: select_profile_def)
  have m1: "select_profile (k\<lparr>inferenceProfileIds := []\<rparr>) ''m1'' = ''m1''"
    by (simp add: select_profile_def)
  have pth: "path (new_request host (select_profile k m) strm txt)
       = ''/model/'' @ select_profile k m @ ''/invoke''
           @ (if strm then ''-with-response-stream'' else [])"
    by (simp add: new_request_def Let_def)
  have run: "\<exists>ky c validated.
            keyPool_get env (model (request mg)) ''aws'' = Inr ky
          \<and> signedRequest (fst (signAwsRequest env mg))
              = Some (sign env
                  (new_request (replace_first ''%REGION%'' (region c) (AMZ_HOST env))
                               (select_profile ky (model (request mg)))
                               (stream (request mg)) (stringify env validated)) c)"
    if "snd (signAwsRequest env mg) = None"
  proof -
    from that have "signAwsRequest env mg = (fst (signAwsRequest env mg), None)"
      by (metis prod.collapse)
    from signAwsRequest_success[OF this] obtain ky c validated where
      "keyPool_get env (model (request mg)) ''aws'' = Inr ky"
      "fst (signAwsRequest env mg) = mg\<lparr>assignedKey := Some ky,
                   headersSet :=
                     AList.update ''anthropic-version'' ''2023-06-01'' (headersSet mg),
                   logged := logged mg
                     @ [assigned_entry ky (request mg) (select_profile ky (model (request mg)))],
                   signedRequest := Some (sign env
                      (new_request (replace_first ''%REGION%'' (region c) (AMZ_HOST env))
                                   (select_profile ky (model (request mg)))
                                   (stream (request mg)) (stringify env validated)) c)\<rparr>"
      by blast
    then have "keyPool_get env (model (request mg)) ''aws'' = Inr ky
          \<and> signedRequest (fst (signAwsRequest env mg))
              = Some (sign env
                  (new_request (replace_first ''%REGION%'' (region c) (AMZ_HOST env))
                               (select_profile ky (model (request mg)))
                               (stream (request mg)) (stringify env validated)) c)"
      by simp
    then show ?thesis by blast
  qed
  from first none foo m1 pth run show ?thesis by blast
qed

theorem select_profile_first_match_witness:
  "inferenceProfileIds example_key = [''foo-v2''] @ ''bar-v2'' # []
   \<and> \<not> sublist ''bar'' ''foo-v2'' \<and> sublist ''bar'' ''bar-v2''
   \<and> select_profile example_key ''bar'' = ''bar-v2''
   \<and> \<not> sublist ''m1'' ''foo-v2'' \<and> \<not> sublist ''m1'' ''bar-v2''
   \<and> select_profile example_key ''m1'' = ''m1''
   \<and> snd (signAwsRequest example_env
            (example_manager (example_request ''foo'' True ''anthropic-chat'' chat_body))) = None
   \<and> (\<exists>r. signedRequest (fst (signAwsRequest example_env
            (example_manager (example_request ''foo'' True ''anthropic-chat'' chat_body))))
          = Some r)"
proof -
  let ?mg = "example_manager (example_request ''foo'' True ''anthropic-chat'' chat_body)"
  have a: "inferenceProfileIds example_key = [''foo-v2''] @ ''bar-v2'' # []
             \<and> (\<forall>q\<in>set [''foo-v2'']. \<not> sublist ''bar'' q) \<and> sublist ''bar'' ''bar-v2''"
    by (simp add: example_key_def js_includes_sublist[symmetric])
  have b: "\<forall>q\<in>set (inferenceProfileIds example_key). \<not> sublist ''m1'' q"
    by (simp add: example_key_def js_includes_sublist[symmetric])
  have c: "snd (signAwsRequest example_env ?mg) = None"
    by (simp add: signAwsRequest_def example_env_def example_manager_def example_request_def
        chat_body_def example_key_def example_schemas_def getCredentialParts_def Let_def
        getStrictlyValidatedBodyForAws_def parse_def results_of_def strip_def pick_def
        messages_mask_def issue_of_def property_of_def zod_required_def zod_optional_def)
  from select_profile_first_match
         [of example_key "[''foo-v2'']" "''bar-v2''" "[]" "''bar''" "[]" False "[]"
             example_env ?mg] a c
  have 1: "select_profile example_key ''bar'' = ''bar-v2''"
    and 3: "\<exists>r. signedRequest (fst (signAwsRequest example_env ?mg)) = Some r"
    by blast+
  from select_profile_first_match[of example_key _ _ _ "''m1''"] b
  have 2: "select_profile example_key ''m1'' = ''m1''" by blast
  from a b have "\<not> sublist ''bar'' ''foo-v2''" "\<not> sublist ''m1'' ''foo-v2''"
    "\<not> sublist ''m1'' ''bar-v2''"
    by (simp_all add: example_key_def)
  with a c 1 2 3 show ?thesis by blast
qed

text \<open>
  C4. With \<open>stream\<close> true the path of the built request is
  \<open>/model/<identifier>/invoke-with-response-stream\<close> and its headers hold
  \<open>x-amzn-bedrock-accept\<close> and no \<open>accept\<close>; with \<open>stream\<close> false the path is
  \<open>/model/<identifier>/invoke\<close> and the headers hold \<open>accept: */*\<close> and no
  \<open>x-amzn-bedrock-accept\<close>. So exactly one of the two headers is present. The
  request a successful run hands to the signer is built with the \<open>stream\<close> of the
  request.
\<close>

theorem streaming_toggle:
  "path (new_request host p True txt) = ''/model/'' @ p @ ''/invoke-with-response-stream''
   \<and> map_of (headers (new_request host p True txt)) ''x-amzn-bedrock-accept''
       = Some ''application/json''
   \<and> map_of (headers (new_request host p True txt)) ''accept'' = None
   \<and> path (new_request host p False txt) = ''/model/'' @ p @ ''/invoke''
   \<and> map_of (headers (new_request host p False txt)) ''accept'' = Some ''*/*''
   \<and> map_of (headers (new_request host p False txt)) ''x-amzn-bedrock-accept'' = None
   \<and> map fst (headers (new_request host p strm txt))
       = [''Host'', ''content-type'',
          if strm then ''x-amzn-bedrock-accept'' else ''accept'']
   \<and> (snd (signAwsRequest env mg) = None \<longrightarrow>
        (\<exists>h i t c. signedRequest (fst (signAwsRequest env mg))
              = Some (sign env (new_request h i (stream (request mg)) t) c)))"
proof -
  have built: "path (new_request host p True txt) = ''/model/'' @ p @ ''/invoke-with-response-stream''
   \<and> map_of (headers (new_request host p True txt)) ''x-amzn-bedrock-accept''
       = Some ''application/json''
   \<and> map_of (headers (new_request host p True txt)) ''accept'' = None
   \<and> path (new_request host p False txt) = ''/model/'' @ p @ ''/invoke''
   \<and> map_of (headers (new_request host p False txt)) ''accept'' = Some ''*/*''
   \<and> map_of (headers (new_request host p False txt)) ''x-amzn-bedrock-accept'' = None
   \<and> map fst (headers (new_request host p strm txt))
       = [''Host'', ''content-type'',
          if strm then ''x-amzn-bedrock-accept'' else ''accept'']"
    by (simp add: new_request_def Let_def)
  have run: "\<exists>h i t c. signedRequest (fst (signAwsRequest env mg))
              = Some (sign env (new_request h i (stream (request mg)) t) c)"
    if "snd (signAwsRequest env mg) = None"
  proof -
    from that have "signAwsRequest env mg = (fst (signAwsRequest env mg), None)"
      by (metis prod.collapse)
    from signAwsRequest_success[OF this] obtain ky c validated where
      "fst (signAwsRequest env mg) = mg\<lparr>assignedKey := Some ky,
                   headersSet :=
                     AList.update ''anthropic-version'' ''2023-06-01'' (headersSet mg),
                   logged := logged mg
                     @ [assigned_entry ky (request mg) (select_profile ky (model (request mg)))],
                   signedRequest := Some (sign env
                      (new_request (replace_first ''%REGION%'' (region c) (AMZ_HOST env))
                                   (select_profile ky (model (request mg)))
                                   (stream (request mg)) (stringify env validated)) c)\<rparr>"
      by blast
    then have "signedRequest (fst (signAwsRequest env mg))
              = Some (sign env
                  (new_request (replace_first ''%REGION%'' (region c) (AMZ_HOST env))
                               (select_profile ky (model (request mg)))
                               (stream (request mg)) (stringify env validated)) c)"
      by simp
    then show ?thesis by blast
  qed
  from built run show ?thesis by blast
qed

theorem streaming_toggle_witness:
  "snd (signAwsRequest example_env
          (example_manager (example_request ''claude-v2'' False ''anthropic-text'' text_body)))
     = None
   \<and> (\<exists>h i t c.
         signedRequest (fst (signAwsRequest example_env
           (example_manager (example_request ''claude-v2'' False ''anthropic-text'' text_body))))
         = Some (sign example_env
             (new_request h i
                (stream (request (example_manager
                   (example_request ''claude-v2'' False ''anthropic-text'' text_body)))) t) c))
   \<and> path (new_request ''h'' ''claude-v2'' False ''{}'') = ''/model/claude-v2/invoke''"
proof -
  let ?mg = "example_manager (example_request ''claude-v2'' False ''anthropic-text'' text_body)"
  have c: "snd (signAwsRequest example_env ?mg) = None"
    by (simp add: signAwsRequest_def example_env_def example_manager_def example_request_def
        text_body_def example_key_def example_schemas_def getCredentialParts_def Let_def
        getStrictlyValidatedBodyForAws_def parse_def results_of_def strip_def pick_def
        text_mask_def issue_of_def property_of_def zod_required_def zod_optional_def)
  from streaming_toggle[of "''h''" "''claude-v2''" "''{}''" False example_env ?mg] c
  show ?thesis by simp
qed

subsection \<open>The body sent to AWS\<close>

text \<open>
  C5. For an \<open>outboundApi\<close> that is none of \<open>anthropic-text\<close>, \<open>anthropic-chat\<close>,
  \<open>mistral-ai\<close> and \<open>mistral-text\<close>, the function throws its error whatever the
  body and the schemas are, and returns no body.
\<close>

theorem unsupported_dialect_rejected:
  "\<not> supported_api (outboundApi req) \<longrightarrow>
     getStrictlyValidatedBodyForAws ss req = Inl (Error ''Unexpected outbound API for AWS.'')"
  by (simp add: supported_api_def getStrictlyValidatedBodyForAws_def)

theorem unsupported_dialect_rejected_witness:
  "\<not> supported_api (outboundApi (example_request ''gpt-4'' False ''openai'' chat_body))
   \<and> getStrictlyValidatedBodyForAws example_schemas
        (example_request ''gpt-4'' False ''openai'' chat_body)
       = Inl (Error ''Unexpected outbound API for AWS.'')"
proof -
  have h: "\<not> supported_api (outboundApi (example_request ''gpt-4'' False ''openai'' chat_body))"
    by (simp add: supported_api_def example_request_def)
  from unsupported_dialect_rejected
         [of "example_request ''gpt-4'' False ''openai'' chat_body" example_schemas] h
  show ?thesis by blast
qed

subsection \<open>Parsing with an object schema\<close>

lemma keys_properties: "fst ` set (List.map_filter property_of rs) \<subseteq> fst ` set rs"
  by (induction rs) (auto simp: map_filter_simps property_of_def split: parsed.splits option.splits)

lemma keys_results: "map fst (results_of fs kvs) = map fst fs"
  by (induction fs) (auto simp: results_of_def)

lemma parse_obj:
  "parse s (JObj kvs) =
     (let results = results_of (shape s) kvs;
          extraKeys = filter (\<lambda>k. k \<notin> set (map fst (shape s))) (map fst kvs);
          issues = List.map_filter issue_of results
                   @ (if unknownKeys s = Strict \<and> extraKeys \<noteq> []
                      then [UnrecognizedKeys extraKeys] else []);
          finalObject = List.map_filter property_of results
                   @ (if unknownKeys s = Passthrough
                      then filter (\<lambda>(k, v). k \<in> set extraKeys) kvs else [])
      in if issues = [] then Inr (JObj finalObject) else Inl (ZodError issues))"
  by (simp add: parse_def)

lemma parse_Inr_obj: "parse s data = Inr out \<Longrightarrow> \<exists>kvs. data = JObj kvs"
  by (cases data) (simp_all add: parse_def)

lemma parse_result:
  assumes "parse s (JObj kvs) = Inr out" and "unknownKeys s \<noteq> Passthrough"
  shows "out = JObj (List.map_filter property_of (results_of (shape s) kvs))"
    and "List.map_filter issue_of (results_of (shape s) kvs) = []"
    and "unknownKeys s = Strict \<Longrightarrow> filter (\<lambda>k. k \<notin> set (map fst (shape s))) (map fst kvs) = []"
  using assms by (auto simp: parse_obj Let_def split: if_splits)

lemma parse_keys:
  assumes "parse s data = Inr out" and "unknownKeys s \<noteq> Passthrough"
  shows "\<exists>kvs. out = JObj kvs \<and> set (map fst kvs) \<subseteq> set (map fst (shape s))"
proof -
  from assms(1) obtain d where d: "data = JObj d" using parse_Inr_obj by blast
  from parse_result(1)[OF assms(1)[unfolded d] assms(2)]
  have "out = JObj (List.map_filter property_of (results_of (shape s) d))" .
  moreover have "set (map fst (List.map_filter property_of (results_of (shape s) d))) \<subseteq> set (map fst (shape s))"
    using keys_properties[of "results_of (shape s) d"] keys_results[of "shape s" d]
    by (metis set_map)
  ultimately show ?thesis by blast
qed

lemma pick_keys: "map fst (shape (pick names s)) = filter (\<lambda>k. map_of (shape s) k \<noteq> None) names"
  by (induction names) (auto simp: pick_def List.map_filter_def)

lemma pick_keys_subset: "set (map fst (shape (pick names s))) \<subseteq> set names"
  by (simp add: pick_keys)






lemma picked_parse_keys:
  assumes "parse (strip (pick names s)) data = Inr out"
  shows "\<exists>kvs. out = JObj kvs \<and> set (map fst kvs) \<subseteq> set names"
proof -
  have "unknownKeys (strip (pick names s)) \<noteq> Passthrough" by (simp add: strip_def)
  from parse_keys[OF assms this] obtain kvs where
    "out = JObj kvs" "set (map fst kvs) \<subseteq> set (map fst (shape (strip (pick names s))))" by blast
  with pick_keys_subset[of names s] show ?thesis by (auto simp: strip_def)
qed

lemma absent_property: "k \<notin> set (keys out) \<Longrightarrow> property out k = None"
  by (cases out) (auto simp: map_of_eq_None_iff)

lemma text_projection:
  assumes a: "outboundApi req = ''anthropic-text''" and r: "getStrictlyValidatedBodyForAws ss req = Inr out"
  shows "(\<exists>kvs. out = JObj kvs) \<and> set (keys out) \<subseteq> set text_mask"
proof -
  from a r have "parse (strip (pick text_mask (AnthropicV1TextSchema ss))) (request.body req) = Inr out"
    by (simp add: getStrictlyValidatedBodyForAws_def)
  from picked_parse_keys[OF this] show ?thesis by auto
qed

lemma chat_projection:
  assumes a: "outboundApi req = ''anthropic-chat''" and r: "getStrictlyValidatedBodyForAws ss req = Inr out"
  shows "\<exists>kvs. parse (strip (pick messages_mask (AnthropicV1MessagesSchema ss))) (request.body req) = Inr (JObj kvs)
            \<and> set (map fst kvs) \<subseteq> set messages_mask
            \<and> out = JObj (AList.update ''anthropic_version'' (JStr ''bedrock-2023-05-31'') kvs)"
proof -
  from a r obtain sp where sp: "parse (strip (pick messages_mask (AnthropicV1MessagesSchema ss))) (request.body req) = Inr sp"
    and out: "out = set_property ''anthropic_version'' (JStr ''bedrock-2023-05-31'') sp"
    by (auto simp: getStrictlyValidatedBodyForAws_def split: sum.splits)
  from picked_parse_keys[OF sp] obtain kvs where "sp = JObj kvs" "set (map fst kvs) \<subseteq> set messages_mask" by blast
  with sp out show ?thesis by auto
qed


text \<open>
  C1. For \<open>anthropic-text\<close> the keys of the returned body are among \<open>prompt\<close>,
  \<open>max_tokens_to_sample\<close>, \<open>stop_sequences\<close>, \<open>temperature\<close>, \<open>top_k\<close>,
  \<open>top_p\<close>, and no \<open>anthropic_version\<close> is added. For \<open>anthropic-chat\<close> they are
  among \<open>messages\<close>, \<open>system\<close>, \<open>max_tokens\<close>, \<open>stop_sequences\<close>,
  \<open>temperature\<close>, \<open>top_k\<close>, \<open>top_p\<close> and \<open>anthropic_version\<close>, and
  \<open>anthropic_version\<close> is there with the value \<open>bedrock-2023-05-31\<close> whatever the
  client sent. In both, every other field of the input is absent from the output.
\<close>

theorem sanitizer_projection:
  "(outboundApi req = ''anthropic-text'' \<and> getStrictlyValidatedBodyForAws ss req = Inr out \<longrightarrow>
      (\<exists>kvs. out = JObj kvs)
      \<and> set (keys out) \<subseteq> {''prompt'', ''max_tokens_to_sample'', ''stop_sequences'',
                            ''temperature'', ''top_k'', ''top_p''}
      \<and> property out ''anthropic_version'' = None)
   \<and> (outboundApi req = ''anthropic-chat'' \<and> getStrictlyValidatedBodyForAws ss req = Inr out \<longrightarrow>
      (\<exists>kvs. out = JObj kvs)
      \<and> set (keys out) \<subseteq> {''messages'', ''system'', ''max_tokens'', ''stop_sequences'',
                            ''temperature'', ''top_k'', ''top_p'', ''anthropic_version''}
      \<and> property out ''anthropic_version'' = Some (JStr ''bedrock-2023-05-31''))
   \<and> (outboundApi req = ''anthropic-text'' \<or> outboundApi req = ''anthropic-chat'' \<longrightarrow>
       getStrictlyValidatedBodyForAws ss req = Inr out \<longrightarrow>
       k \<notin> set (allow_list ss (outboundApi req)) \<longrightarrow> property out k = None)"
proof -
  have av_text: "''anthropic_version'' \<notin> set text_mask" by (simp add: text_mask_def)
  have t: "(\<exists>kvs. out = JObj kvs) \<and> set (keys out) \<subseteq> set text_mask \<and> property out ''anthropic_version'' = None"
    if "outboundApi req = ''anthropic-text'' \<and> getStrictlyValidatedBodyForAws ss req = Inr out"
  proof -
    from that have a: "outboundApi req = ''anthropic-text''"
      and r: "getStrictlyValidatedBodyForAws ss req = Inr out" by blast+
    note 1 = text_projection[OF a r]
    with av_text have "''anthropic_version'' \<notin> set (keys out)" by blast
    from absent_property[OF this] 1 show ?thesis by blast
  qed
  have c: "(\<exists>kvs. out = JObj kvs) \<and> set (keys out) \<subseteq> insert ''anthropic_version'' (set messages_mask)
      \<and> property out ''anthropic_version'' = Some (JStr ''bedrock-2023-05-31'')"
    if "outboundApi req = ''anthropic-chat'' \<and> getStrictlyValidatedBodyForAws ss req = Inr out"
  proof -
    from that have a: "outboundApi req = ''anthropic-chat''"
      and r: "getStrictlyValidatedBodyForAws ss req = Inr out" by blast+
    from chat_projection[OF a r] obtain kvs where
      k: "set (map fst kvs) \<subseteq> set messages_mask"
      and out: "out = JObj (AList.update ''anthropic_version'' (JStr ''bedrock-2023-05-31'') kvs)" by blast
    have "fst ` set (AList.update ''anthropic_version'' (JStr ''bedrock-2023-05-31'') kvs)
            = insert ''anthropic_version'' (fst ` set kvs)"
      using dom_update[of "''anthropic_version''" "JStr ''bedrock-2023-05-31''" kvs] by (simp only: dom_map_of_conv_image_fst insert_is_Un[symmetric])
    then have ks: "set (keys out) = insert ''anthropic_version'' (set (map fst kvs))"
      unfolding out by simp
    have av: "property out ''anthropic_version'' = Some (JStr ''bedrock-2023-05-31'')"
      unfolding out by (simp add: update_conv')
    from ks k have "set (keys out) \<subseteq> insert ''anthropic_version'' (set messages_mask)" by blast
    with av out show ?thesis by blast
  qed
  have o: "property out k = None"
    if a: "outboundApi req = ''anthropic-text'' \<or> outboundApi req = ''anthropic-chat''"
      and r: "getStrictlyValidatedBodyForAws ss req = Inr out"
      and k: "k \<notin> set (allow_list ss (outboundApi req))"
  proof -
    have "set (keys out) \<subseteq> set (allow_list ss (outboundApi req))"
    proof (cases "outboundApi req = ''anthropic-text''")
      case True
      then have "allow_list ss (outboundApi req) = text_mask" by (simp add: allow_list_def)
      with t True r show ?thesis by simp
    next
      case False
      with a have ch: "outboundApi req = ''anthropic-chat''" by simp
      then have "set (allow_list ss (outboundApi req)) = insert ''anthropic_version'' (set messages_mask)"
        by (simp add: allow_list_def)
      with c ch r show ?thesis by simp
    qed
    with k have "k \<notin> set (keys out)" by blast
    then show ?thesis by (rule absent_property)
  qed
  have s1: "set text_mask = {''prompt'', ''max_tokens_to_sample'', ''stop_sequences'',
                            ''temperature'', ''top_k'', ''top_p''}" by (simp add: text_mask_def)
  have s2: "insert ''anthropic_version'' (set messages_mask) = {''messages'', ''system'', ''max_tokens'', ''stop_sequences'',
                            ''temperature'', ''top_k'', ''top_p'', ''anthropic_version''}"
    by (simp add: messages_mask_def insert_commute)
  show ?thesis
    apply (intro conjI)
    subgoal using t unfolding s1 by (rule impI)
    subgoal using c unfolding s2 by (rule impI)
    subgoal using o by blast
    done
qed

theorem sanitizer_projection_witness:
  "outboundApi (example_request ''claude-v2'' False ''anthropic-text'' text_body) = ''anthropic-text''
   \<and> getStrictlyValidatedBodyForAws example_schemas
        (example_request ''claude-v2'' False ''anthropic-text'' text_body)
       = Inr (JObj [(''prompt'', JStr ''Human: hi''), (''max_tokens_to_sample'', JNum 100)])
   \<and> property (JObj [(''prompt'', JStr ''Human: hi''), (''max_tokens_to_sample'', JNum 100)])
        ''anthropic_version'' = None
   \<and> outboundApi (example_request ''claude-3'' False ''anthropic-chat'' chat_body) = ''anthropic-chat''
   \<and> getStrictlyValidatedBodyForAws example_schemas
        (example_request ''claude-3'' False ''anthropic-chat'' chat_body)
       = Inr (JObj [(''messages'',
                      JArr [JObj [(''role'', JStr ''user''), (''content'', JStr ''hi'')]]),
                    (''temperature'', JNum (1 / 2)),
                    (''anthropic_version'', JStr ''bedrock-2023-05-31'')])
   \<and> ''foo'' \<notin> set (allow_list example_schemas ''anthropic-chat'')
   \<and> property (JObj [(''messages'',
                      JArr [JObj [(''role'', JStr ''user''), (''content'', JStr ''hi'')]]),
                    (''temperature'', JNum (1 / 2)),
                    (''anthropic_version'', JStr ''bedrock-2023-05-31'')]) ''foo'' = None
   \<and> property (JObj [(''messages'',
                      JArr [JObj [(''role'', JStr ''user''), (''content'', JStr ''hi'')]]),
                    (''temperature'', JNum (1 / 2)),
                    (''anthropic_version'', JStr ''bedrock-2023-05-31'')]) ''anthropic_version''
       = Some (JStr ''bedrock-2023-05-31'')"
proof -
  let ?treq = "example_request ''claude-v2'' False ''anthropic-text'' text_body"
  let ?tout = "JObj [(''prompt'', JStr ''Human: hi''), (''max_tokens_to_sample'', JNum 100)]"
  let ?creq = "example_request ''claude-3'' False ''anthropic-chat'' chat_body"
  let ?cout = "JObj [(''messages'',
                      JArr [JObj [(''role'', JStr ''user''), (''content'', JStr ''hi'')]]),
                    (''temperature'', JNum (1 / 2)),
                    (''anthropic_version'', JStr ''bedrock-2023-05-31'')]"
  have ta: "outboundApi ?treq = ''anthropic-text''" by (simp add: example_request_def)
  have tr: "getStrictlyValidatedBodyForAws example_schemas ?treq = Inr ?tout"
    by (simp add: example_request_def text_body_def example_schemas_def
        getStrictlyValidatedBodyForAws_def parse_def results_of_def strip_def pick_def
        text_mask_def issue_of_def property_of_def zod_required_def zod_optional_def)
  have ca: "outboundApi ?creq = ''anthropic-chat''" by (simp add: example_request_def)
  have cr: "getStrictlyValidatedBodyForAws example_schemas ?creq = Inr ?cout"
    by (simp add: example_request_def chat_body_def example_schemas_def
        getStrictlyValidatedBodyForAws_def parse_def results_of_def strip_def pick_def
        messages_mask_def issue_of_def property_of_def zod_required_def zod_optional_def)
  have foo: "''foo'' \<notin> set (allow_list example_schemas ''anthropic-chat'')"
    by (simp add: allow_list_def messages_mask_def)
  from sanitizer_projection[of ?treq example_schemas ?tout "''foo''"] ta tr
  have 1: "property ?tout ''anthropic_version'' = None" by blast
  from sanitizer_projection[of ?creq example_schemas ?cout "''foo''"] ca cr foo
  have 2: "property ?cout ''anthropic_version'' = Some (JStr ''bedrock-2023-05-31'')"
    and 3: "property ?cout ''foo'' = None" by (blast, metis)
  from ta tr ca cr foo 1 2 3 show ?thesis by blast
qed

subsection \<open>Running the function on its own output\<close>














subsection \<open>Strict validation of the Mistral dialects\<close>

lemma issue_in:
  "(k, Invalid) \<in> set rs \<Longrightarrow> InvalidField k \<in> set (List.map_filter issue_of rs)"
  by (induction rs) (auto simp: issue_of_def split: parsed.splits option.splits)

lemma parse_invalid_field:
  assumes "(k, t) \<in> set (shape s)" and "t (map_of kvs k) = Invalid"
  shows "\<exists>issues. parse s (JObj kvs) = Inl (ZodError issues) \<and> InvalidField k \<in> set issues"
proof -
  from assms have "(k, Invalid) \<in> set (results_of (shape s) kvs)"
    by (force simp: results_of_def)
  then have "InvalidField k \<in> set (List.map_filter issue_of (results_of (shape s) kvs))"
    by (rule issue_in)
  then show ?thesis by (auto simp: parse_obj Let_def)
qed

lemma parse_extraneous:
  assumes "k \<in> set (map fst kvs)" and "k \<notin> set (map fst fs)"
  shows "\<exists>issues ks. parse (strict_schema fs) (JObj kvs) = Inl (ZodError issues)
            \<and> UnrecognizedKeys ks \<in> set issues \<and> k \<in> set ks"
proof -
  let ?extra = "filter (\<lambda>k. k \<notin> set (map fst fs)) (map fst kvs)"
  from assms have "k \<in> set ?extra" by simp
  moreover then have "?extra \<noteq> []" by (metis empty_iff empty_set)
  ultimately have "parse (strict_schema fs) (JObj kvs)
        = Inl (ZodError (List.map_filter issue_of (results_of fs kvs) @ [UnrecognizedKeys ?extra]))
      \<and> UnrecognizedKeys ?extra \<in> set (List.map_filter issue_of (results_of fs kvs) @ [UnrecognizedKeys ?extra])
      \<and> k \<in> set ?extra"
    by (simp add: parse_obj Let_def strict_schema_def)
  then show ?thesis by blast
qed

lemma parse_not_object:
  "\<forall>kvs. data \<noteq> JObj kvs \<Longrightarrow> parse s data = Inl (ZodError [InvalidType])"
  by (cases data) (simp_all add: parse_def)

lemma sanitizer_error_propagates:
  assumes "keyPool_get env (model (request m)) ''aws'' = Inr k"
    and "snd (getCredentialParts k) = Inr c"
    and "getStrictlyValidatedBodyForAws (schemas env) (request m) = Inl e"
  shows "snd (signAwsRequest env m) = Some e
       \<and> signedRequest (fst (signAwsRequest env m)) = signedRequest m"
  using assms(1,3) getCredentialParts_ok_log[OF assms(2)]
  by (simp add: signAwsRequest_def Let_def)

lemma mistral_parse:
  assumes "outboundApi req = ''mistral-ai'' \<and> fs = AWSMistralV1ChatCompletionsFields ss
         \<or> outboundApi req = ''mistral-text'' \<and> fs = AWSMistralV1TextCompletionsFields ss"
  shows "getStrictlyValidatedBodyForAws ss req = parse (strict_schema fs) (request.body req)"
  using assms by (auto simp: getStrictlyValidatedBodyForAws_def)


text \<open>
  C8. For \<open>mistral-ai\<close> and \<open>mistral-text\<close> the body is parsed with the whole
  schema of the dialect, which is strict. A key of the body outside the schema, a field
  whose value its type refuses, and a required field that is missing each make the
  function throw a \<^verbatim>\<open>ZodError\<close> with an issue that names the key; so does a body that is
  not an object. Nothing is dropped silently. The error leaves \<open>signAwsRequest\<close> as
  it was thrown, and no request is signed.
\<close>

theorem mistral_strict_validation:
  assumes d: "outboundApi req = ''mistral-ai'' \<and> fs = AWSMistralV1ChatCompletionsFields ss
            \<or> outboundApi req = ''mistral-text'' \<and> fs = AWSMistralV1TextCompletionsFields ss"
  shows "(request.body req = JObj kvs \<and> k \<in> set (map fst kvs) \<and> k \<notin> set (map fst fs) \<longrightarrow>
            (\<exists>issues ks. getStrictlyValidatedBodyForAws ss req = Inl (ZodError issues)
                \<and> UnrecognizedKeys ks \<in> set issues \<and> k \<in> set ks))
       \<and> (request.body req = JObj kvs \<and> (k, t) \<in> set fs \<and> t (map_of kvs k) = Invalid \<longrightarrow>
            (\<exists>issues. getStrictlyValidatedBodyForAws ss req = Inl (ZodError issues)
                \<and> InvalidField k \<in> set issues))
       \<and> (request.body req = JObj kvs \<and> (k, t) \<in> set fs \<and> k \<notin> set (map fst kvs) \<and> t None = Invalid \<longrightarrow>
            (\<exists>issues. getStrictlyValidatedBodyForAws ss req = Inl (ZodError issues)
                \<and> InvalidField k \<in> set issues))
       \<and> ((\<forall>kvs. request.body req \<noteq> JObj kvs) \<longrightarrow>
            getStrictlyValidatedBodyForAws ss req = Inl (ZodError [InvalidType]))
       \<and> (request m = req \<and> schemas env = ss
            \<and> keyPool_get env (model req) ''aws'' = Inr ky \<and> snd (getCredentialParts ky) = Inr c
            \<and> getStrictlyValidatedBodyForAws ss req = Inl e \<longrightarrow>
            snd (signAwsRequest env m) = Some e
            \<and> signedRequest (fst (signAwsRequest env m)) = signedRequest m)"
proof -
  note p = mistral_parse[OF d]
  have sh: "shape (strict_schema fs) = fs" by (simp add: strict_schema_def)
  have 1: "\<exists>issues ks. getStrictlyValidatedBodyForAws ss req = Inl (ZodError issues)
                \<and> UnrecognizedKeys ks \<in> set issues \<and> k \<in> set ks"
    if "request.body req = JObj kvs \<and> k \<in> set (map fst kvs) \<and> k \<notin> set (map fst fs)"
    using that parse_extraneous[of k kvs fs] unfolding p by auto
  have 2: "\<exists>issues. getStrictlyValidatedBodyForAws ss req = Inl (ZodError issues)
                \<and> InvalidField k \<in> set issues"
    if "request.body req = JObj kvs \<and> (k, t) \<in> set fs \<and> t (map_of kvs k) = Invalid"
    using that parse_invalid_field[of k t "strict_schema fs" kvs] unfolding p sh by auto
  have 3: "\<exists>issues. getStrictlyValidatedBodyForAws ss req = Inl (ZodError issues)
                \<and> InvalidField k \<in> set issues"
    if h: "request.body req = JObj kvs \<and> (k, t) \<in> set fs \<and> k \<notin> set (map fst kvs) \<and> t None = Invalid"
  proof -
    from h have "map_of kvs k = None" by (simp add: map_of_eq_None_iff)
    with h have "request.body req = JObj kvs \<and> (k, t) \<in> set fs \<and> t (map_of kvs k) = Invalid" by simp
    then show ?thesis by (rule 2)
  qed
  have 4: "getStrictlyValidatedBodyForAws ss req = Inl (ZodError [InvalidType])"
    if "\<forall>kvs. request.body req \<noteq> JObj kvs"
    unfolding p using that by (rule parse_not_object)
  have 5: "snd (signAwsRequest env m) = Some e
            \<and> signedRequest (fst (signAwsRequest env m)) = signedRequest m"
    if "request m = req \<and> schemas env = ss
            \<and> keyPool_get env (model req) ''aws'' = Inr ky \<and> snd (getCredentialParts ky) = Inr c
            \<and> getStrictlyValidatedBodyForAws ss req = Inl e"
    using that sanitizer_error_propagates[of env m ky c e] by auto
  from 1 2 3 4 5 show ?thesis by blast
qed

theorem mistral_strict_validation_witness:
  "outboundApi (example_request ''mistral-large'' False ''mistral-ai'' chat_body) = ''mistral-ai''
   \<and> ''foo'' \<notin> set (map fst (AWSMistralV1ChatCompletionsFields example_schemas))
   \<and> (\<exists>issues ks.
          getStrictlyValidatedBodyForAws example_schemas
            (example_request ''mistral-large'' False ''mistral-ai'' chat_body)
          = Inl (ZodError issues) \<and> UnrecognizedKeys ks \<in> set issues \<and> ''foo'' \<in> set ks)
   \<and> zod_optional is_number (Some (JStr ''hot'')) = Invalid
   \<and> (\<exists>issues.
          getStrictlyValidatedBodyForAws example_schemas
            (example_request ''mistral-large'' False ''mistral-ai'' bad_temperature_body)
          = Inl (ZodError issues) \<and> InvalidField ''temperature'' \<in> set issues)
   \<and> zod_required is_array None = Invalid
   \<and> (\<exists>issues.
          getStrictlyValidatedBodyForAws example_schemas
            (example_request ''mistral-large'' False ''mistral-ai'' no_messages_body)
          = Inl (ZodError issues) \<and> InvalidField ''messages'' \<in> set issues)
   \<and> getStrictlyValidatedBodyForAws example_schemas
        (example_request ''mistral-large'' False ''mistral-ai'' JNull)
       = Inl (ZodError [InvalidType])
   \<and> getStrictlyValidatedBodyForAws example_schemas
        (example_request ''mistral-large'' False ''mistral-ai'' chat_body)
       = Inl (ZodError [UnrecognizedKeys [''foo'']])
   \<and> snd (signAwsRequest example_env
        (example_manager (example_request ''mistral-large'' False ''mistral-ai'' chat_body)))
       = Some (ZodError [UnrecognizedKeys [''foo'']])
   \<and> signedRequest (fst (signAwsRequest example_env
        (example_manager (example_request ''mistral-large'' False ''mistral-ai'' chat_body))))
       = None"
proof -
  let ?fs = "AWSMistralV1ChatCompletionsFields example_schemas"
  let ?r1 = "example_request ''mistral-large'' False ''mistral-ai'' chat_body"
  let ?r2 = "example_request ''mistral-large'' False ''mistral-ai'' bad_temperature_body"
  let ?r3 = "example_request ''mistral-large'' False ''mistral-ai'' no_messages_body"
  let ?r4 = "example_request ''mistral-large'' False ''mistral-ai'' JNull"
  let ?kvs1 = "[(''messages'', JArr [JObj [(''role'', JStr ''user''), (''content'', JStr ''hi'')]]),
                (''temperature'', JNum (1 / 2)), (''foo'', JStr ''bar'')]"
  let ?kvs2 = "[(''messages'', JArr []), (''temperature'', JStr ''hot'')]"
  let ?kvs3 = "[(''temperature'', JNum 1)]"
  let ?c = "\<lparr>accessKeyId = ''AKIDEXAMPLE'', secretAccessKey = ''wJalrXUtnFEMI'',
             region = ''us-east-1''\<rparr>"
  let ?e = "ZodError [UnrecognizedKeys [''foo'']]"
  have a1: "outboundApi ?r1 = ''mistral-ai''" by (simp add: example_request_def)
  have d1: "outboundApi ?r1 = ''mistral-ai'' \<and> ?fs = AWSMistralV1ChatCompletionsFields example_schemas
          \<or> outboundApi ?r1 = ''mistral-text'' \<and> ?fs = AWSMistralV1TextCompletionsFields example_schemas"
    by (simp add: example_request_def)
  have d2: "outboundApi ?r2 = ''mistral-ai'' \<and> ?fs = AWSMistralV1ChatCompletionsFields example_schemas
          \<or> outboundApi ?r2 = ''mistral-text'' \<and> ?fs = AWSMistralV1TextCompletionsFields example_schemas"
    by (simp add: example_request_def)
  have d3: "outboundApi ?r3 = ''mistral-ai'' \<and> ?fs = AWSMistralV1ChatCompletionsFields example_schemas
          \<or> outboundApi ?r3 = ''mistral-text'' \<and> ?fs = AWSMistralV1TextCompletionsFields example_schemas"
    by (simp add: example_request_def)
  have d4: "outboundApi ?r4 = ''mistral-ai'' \<and> ?fs = AWSMistralV1ChatCompletionsFields example_schemas
          \<or> outboundApi ?r4 = ''mistral-text'' \<and> ?fs = AWSMistralV1TextCompletionsFields example_schemas"
    by (simp add: example_request_def)
  have fs: "?fs = [(''messages'', zod_required is_array), (''temperature'', zod_optional is_number)]"
    by (simp add: example_schemas_def)
  have h1: "request.body ?r1 = JObj ?kvs1 \<and> ''foo'' \<in> set (map fst ?kvs1)
              \<and> ''foo'' \<notin> set (map fst ?fs)"
    unfolding fs by (simp add: example_request_def chat_body_def)
  have h2: "request.body ?r2 = JObj ?kvs2 \<and> (''temperature'', zod_optional is_number) \<in> set ?fs
              \<and> zod_optional is_number (map_of ?kvs2 ''temperature'') = Invalid"
    unfolding fs by (simp add: example_request_def bad_temperature_body_def zod_optional_def)
  have h3: "request.body ?r3 = JObj ?kvs3 \<and> (''messages'', zod_required is_array) \<in> set ?fs
              \<and> ''messages'' \<notin> set (map fst ?kvs3) \<and> zod_required is_array None = Invalid"
    unfolding fs by (simp add: example_request_def no_messages_body_def zod_required_def)
  have h4: "\<forall>kvs. request.body ?r4 \<noteq> JObj kvs" by (simp add: example_request_def)
  have e: "getStrictlyValidatedBodyForAws example_schemas ?r1 = Inl ?e"
    by (simp add: example_request_def chat_body_def example_schemas_def
        getStrictlyValidatedBodyForAws_def parse_def results_of_def strict_schema_def
        issue_of_def property_of_def zod_required_def zod_optional_def)
  have h5: "request (example_manager ?r1) = ?r1 \<and> schemas example_env = example_schemas
            \<and> keyPool_get example_env (model ?r1) ''aws'' = Inr example_key
            \<and> snd (getCredentialParts example_key) = Inr ?c
            \<and> getStrictlyValidatedBodyForAws example_schemas ?r1 = Inl ?e"
    using e by (simp add: example_manager_def example_env_def example_key_def
        getCredentialParts_def Let_def)
  have t2: "zod_optional is_number (Some (JStr ''hot'')) = Invalid"
    by (simp add: zod_optional_def)
  from mistral_strict_validation[OF d1, where kvs = ?kvs1 and k = "''foo''"] h1
  have 1: "\<exists>issues ks. getStrictlyValidatedBodyForAws example_schemas ?r1 = Inl (ZodError issues)
             \<and> UnrecognizedKeys ks \<in> set issues \<and> ''foo'' \<in> set ks"
    by blast
  from mistral_strict_validation
         [OF d2, where kvs = ?kvs2 and k = "''temperature''" and t = "zod_optional is_number"] h2
  have 2: "\<exists>issues. getStrictlyValidatedBodyForAws example_schemas ?r2 = Inl (ZodError issues)
             \<and> InvalidField ''temperature'' \<in> set issues"
    by blast
  from mistral_strict_validation
         [OF d3, where kvs = ?kvs3 and k = "''messages''" and t = "zod_required is_array"] h3
  have 3: "\<exists>issues. getStrictlyValidatedBodyForAws example_schemas ?r3 = Inl (ZodError issues)
             \<and> InvalidField ''messages'' \<in> set issues"
    by blast
  from mistral_strict_validation[OF d4] h4
  have 4: "getStrictlyValidatedBodyForAws example_schemas ?r4 = Inl (ZodError [InvalidType])"
    by blast
  from mistral_strict_validation
         [OF d1, where m = "example_manager ?r1" and env = example_env and ky = example_key
            and c = ?c and e = ?e] h5
  have 5: "snd (signAwsRequest example_env (example_manager ?r1)) = Some ?e
           \<and> signedRequest (fst (signAwsRequest example_env (example_manager ?r1)))
               = signedRequest (example_manager ?r1)"
    by blast
  have 6: "signedRequest (example_manager ?r1) = None" by (simp add: example_manager_def)
  from a1 h1 h3 t2 e 1 2 3 4 5 6 show ?thesis by simp
qed

end
